theory Spec2Isabelle
  imports Main
begin

section \<open>Shelly 2.5 initialisation (src/Shelly25/shelly_init.cpp)\<close>

text \<open>
  The file has three functions: \<open>PowerMeterInit\<close>, \<open>CreatePeripherals\<close> and
  \<open>CreateComponents\<close>. They act on vectors the caller owns and on one file-level
  global, \<open>s_ade7953\<close>. The model passes that state explicitly. Everything the three
  functions call and that is defined elsewhere (the chip driver, the constructors and
  \<open>Init\<close> methods of the peripheral and component classes, the registry lookups,
  \<open>CreateHAPInput\<close>, \<open>CreateHAPSwitch\<close>) is a field of a record of collaborators,
  so that every theorem holds for whatever those collaborators answer.
\<close>

subsection \<open>Status\<close>

datatype status_code = STATUS_UNAVAILABLE | STATUS_OTHER int

text \<open>
  Modelled from the spec: the class \<open>Status\<close> is declared in another file. A status
  is \<open>OK\<close> or an error with a code and a message, as \<open>mgos::Errorf\<close> builds it,
  and \<open>ok\<close> holds of \<open>OK\<close> alone.
\<close>

datatype Status = OK | Errorf status_code string

fun ok :: "Status \<Rightarrow> bool" where
  "ok OK = True"
| "ok (Errorf c m) = False"

subsection \<open>Peripheral objects\<close>

type_synonym ade7953_handle = nat

datatype gpio_pull = MGOS_GPIO_PULL_NONE | MGOS_GPIO_PULL_UP | MGOS_GPIO_PULL_DOWN

text \<open>
  \<open>std::bind(&HandleInputResetSequence, in1, 4, _1, _2)\<close>: the handler with its two
  bound arguments, the input (by its id) and the integer.
\<close>

datatype handler = HandleInputResetSequence int int

text \<open>
  Modelled from the spec: the class \<open>OutputPin\<close> is declared in another file. An
  Output has a logical index, a physical pin and an idle level, the three arguments of
  \<open>OutputPin(id, pin, on_value)\<close>; the comment of line 68 names the second as the
  GPIO number.
\<close>

record Output =
  out_id :: int
  out_pin :: int
  out_on_value :: int

definition OutputPin :: "int \<Rightarrow> int \<Rightarrow> int \<Rightarrow> Output" where
  "OutputPin i pin on_value = \<lparr>out_id = i, out_pin = pin, out_on_value = on_value\<rparr>"

text \<open>
  Modelled from the spec: the class \<open>InputPin\<close> is declared in another file. An
  Input has a logical index, a physical pin, a polarity, a pull configuration, a flag
  and an ordered list of attached handlers: the five arguments of
  \<open>InputPin(id, pin, on_value, pull, flag)\<close>, and a list that is empty until
  \<open>AddHandler\<close> appends to it.
\<close>

record Input =
  in_id :: int
  in_pin :: int
  in_on_value :: int
  in_pull :: gpio_pull
  in_flag :: bool
  in_handlers :: "handler list"

definition InputPin :: "int \<Rightarrow> int \<Rightarrow> int \<Rightarrow> gpio_pull \<Rightarrow> bool \<Rightarrow> Input" where
  "InputPin i pin on_value pull flag =
     \<lparr>in_id = i, in_pin = pin, in_on_value = on_value, in_pull = pull, in_flag = flag,
      in_handlers = []\<rparr>"

definition Input_AddHandler :: "handler \<Rightarrow> Input \<Rightarrow> Input" where
  "Input_AddHandler f i = i\<lparr>in_handlers := in_handlers i @ [f]\<rparr>"

text \<open>
  Modelled from the spec: the class \<open>ADE7953PowerMeter\<close> is declared in another
  file. A PowerMeter has a logical index, a reference to the chip handle and a channel
  selector, the three arguments of \<open>ADE7953PowerMeter(id, chip, channel)\<close>.
\<close>

record PowerMeter =
  pm_id :: int
  pm_chip :: ade7953_handle
  pm_channel :: int

definition ADE7953PowerMeter :: "int \<Rightarrow> ade7953_handle \<Rightarrow> int \<Rightarrow> PowerMeter" where
  "ADE7953PowerMeter i chip channel = \<lparr>pm_id = i, pm_chip = chip, pm_channel = channel\<rparr>"

text \<open>
  Modelled from the spec: the class \<open>TempSensorSDNT1608X103F3950\<close> is declared in
  another file, and its construction cannot fail. Of the three arguments of
  \<open>TempSensorSDNT1608X103F3950(0, 3.3f, 33000.0f)\<close> the first is kept; the two
  floats play no part in what is proved here.
\<close>

record TempSensor =
  ts_arg :: int

definition TempSensorSDNT1608X103F3950 :: "int \<Rightarrow> TempSensor" where
  "TempSensorSDNT1608X103F3950 a = \<lparr>ts_arg = a\<rparr>"

subsection \<open>The order of calls\<close>

text \<open>
  The calls the functions make on the peripheral classes, the chip driver and the
  logger, in the order they are made.
\<close>

datatype event =
    NewOutputPin int int int
  | NewInputPin int int int gpio_pull bool
  | AddHandler int handler
  | InputInit int
  | Ade7953Create
  | NewADE7953PowerMeter int ade7953_handle int
  | PowerMeterInitCall int
  | LOG_ERROR string "Status list"
  | NewTempSensor int

fun is_NewOutputPin :: "event \<Rightarrow> bool" where
  "is_NewOutputPin (NewOutputPin i p v) = True"
| "is_NewOutputPin e = False"

fun is_InputInit :: "event \<Rightarrow> bool" where
  "is_InputInit (InputInit i) = True"
| "is_InputInit e = False"

fun is_AddHandler :: "event \<Rightarrow> bool" where
  "is_AddHandler (AddHandler i h) = True"
| "is_AddHandler e = False"

text \<open>
  The vectors \<open>inputs\<close>, \<open>outputs\<close>, \<open>pms\<close>, the pointer \<open>sys_temp\<close>, the global
  \<open>s_ade7953\<close> (\<open>None\<close> is the null pointer) and the calls made so far.
\<close>

record registry =
  inputs :: "Input list"
  outputs :: "Output list"
  pms :: "PowerMeter list"
  sys_temp :: "TempSensor option"
  s_ade7953 :: "ade7953_handle option"
  trace :: "event list"

definition emit :: "event \<Rightarrow> registry \<Rightarrow> registry" where
  "emit e r = r\<lparr>trace := trace r @ [e]\<rparr>"

text \<open>
  The hardware collaborators: what \<open>mgos_ade7953_create\<close> returns (a handle or
  null) and what \<open>Init\<close> of a power meter returns. The calibration constants of
  lines 36 to 43 are floats handed to the driver; they are left out.
\<close>

record hw =
  mgos_ade7953_create :: "ade7953_handle option"
  pm_Init :: "PowerMeter \<Rightarrow> Status"

subsection \<open>PowerMeterInit\<close>

definition PowerMeterInit :: "hw \<Rightarrow> registry \<Rightarrow> Status \<times> registry" where
  "PowerMeterInit h r =
     (let r1 = emit Ade7953Create (r\<lparr>s_ade7953 := mgos_ade7953_create h\<rparr>) in
      case s_ade7953 r1 of
        None \<Rightarrow>
          (Errorf STATUS_UNAVAILABLE ''Failed to init ADE7953'',
           emit (LOG_ERROR ''Failed to init ADE7953'' []) r1)
      | Some c \<Rightarrow>
          (let pm1 = ADE7953PowerMeter 1 c 1;
               r2 = emit (NewADE7953PowerMeter 1 c 1) r1;
               st1 = pm_Init h pm1;
               r3 = emit (PowerMeterInitCall 1) r2
           in if \<not> ok st1 then (st1, r3)
              else
                (let pm2 = ADE7953PowerMeter 2 c 0;
                     r4 = emit (NewADE7953PowerMeter 2 c 0) r3;
                     st2 = pm_Init h pm2;
                     r5 = emit (PowerMeterInitCall 2) r4
                 in if \<not> ok st2 then (st2, r5)
                    else (OK, r5\<lparr>pms := pms r5 @ [pm1] @ [pm2]\<rparr>))))"

subsection \<open>CreatePeripherals\<close>

definition CreatePeripherals :: "hw \<Rightarrow> registry \<Rightarrow> registry" where
  "CreatePeripherals h r =
     (let r1 = emit (NewOutputPin 1 4 1) r;
          r2 = r1\<lparr>outputs := outputs r1 @ [OutputPin 1 4 1]\<rparr>;
          r3 = emit (NewOutputPin 2 15 1) r2;
          r4 = r3\<lparr>outputs := outputs r3 @ [OutputPin 2 15 1]\<rparr>;
          in1 = InputPin 1 13 1 MGOS_GPIO_PULL_NONE True;
          r5 = emit (NewInputPin 1 13 1 MGOS_GPIO_PULL_NONE True) r4;
          in1' = Input_AddHandler (HandleInputResetSequence (in_id in1) 4) in1;
          r6 = emit (AddHandler (in_id in1) (HandleInputResetSequence (in_id in1) 4)) r5;
          r7 = emit (InputInit 1) r6;
          r8 = r7\<lparr>inputs := inputs r7 @ [in1']\<rparr>;
          in2 = InputPin 2 5 1 MGOS_GPIO_PULL_NONE False;
          r9 = emit (NewInputPin 2 5 1 MGOS_GPIO_PULL_NONE False) r8;
          r10 = emit (InputInit 2) r9;
          r11 = r10\<lparr>inputs := inputs r10 @ [in2]\<rparr>;
          (st, r12) = PowerMeterInit h r11;
          r13 = (if \<not> ok st then emit (LOG_ERROR ''Failed to init ADE7953: %s'' [st]) r12
                 else r12)
      in emit (NewTempSensor 0) (r13\<lparr>sys_temp := Some (TempSensorSDNT1608X103F3950 0)\<rparr>))"

text \<open>The calls one run of \<open>CreatePeripherals\<close> makes: what it adds to the trace.\<close>

definition run_events :: "hw \<Rightarrow> registry \<Rightarrow> event list" where
  "run_events h r = drop (length (trace r)) (trace (CreatePeripherals h r))"

text \<open>The registry before \<open>CreatePeripherals\<close> runs: nothing created, the global null.\<close>

definition empty_registry :: registry where
  "empty_registry =
     \<lparr>inputs = [], outputs = [], pms = [], sys_temp = None, s_ade7953 = None, trace = []\<rparr>"

subsection \<open>Components, accessories and configuration\<close>

text \<open>
  Modelled from the spec: the class \<open>Component\<close> and its subclasses are declared
  in other files. A Component wraps one behaviour (switch, window covering, garage door
  opener or pass-through input) and holds a \<open>primary\<close> flag, which
  \<open>set_primary\<close> sets. It is known here by its kind, its id and that flag.
\<close>

datatype ComponentType = kSwitch | kWindowCovering | kGarageDoorOpener | kInput

record Component =
  comp_type :: ComponentType
  comp_id :: int
  primary :: bool

definition set_primary :: "bool \<Rightarrow> Component \<Rightarrow> Component" where
  "set_primary b c = c\<lparr>primary := b\<rparr>"

datatype HAPAccessoryCategory =
    kHAPAccessoryCategory_BridgedAccessory
  | kHAPAccessoryCategory_WindowCoverings
  | kHAPAccessoryCategory_GarageDoorOpeners
  | kHAPAccessoryCategory_Other int

text \<open>
  A service attached to an accessory: the accessory information service, or a
  Component, held by pointer (\<open>wc.get()\<close>) and named here by its kind and id.
\<close>

datatype Service =
    mgos_hap_accessory_information_service
  | ComponentService ComponentType int

definition service_of :: "Component \<Rightarrow> Service" where
  "service_of c = ComponentService (comp_type c) (comp_id c)"

text \<open>
  Modelled from the spec: the class \<open>mgos::hap::Accessory\<close> is declared in another
  file. An accessory is a named, categorised container with an ordered list of attached
  services. Its constructor takes the id, the category and the name (and the identify
  callback and the server, which are left out); \<open>SetCategory\<close> replaces the
  category; \<open>AddService\<close> and \<open>AddHAPService\<close> append a service.
\<close>

record Accessory =
  acc_aid :: int
  acc_category :: HAPAccessoryCategory
  acc_name :: string
  acc_services :: "Service list"

definition new_Accessory :: "int \<Rightarrow> HAPAccessoryCategory \<Rightarrow> string \<Rightarrow> Accessory" where
  "new_Accessory aid cat name =
     \<lparr>acc_aid = aid, acc_category = cat, acc_name = name, acc_services = []\<rparr>"

definition Accessory_SetCategory :: "HAPAccessoryCategory \<Rightarrow> Accessory \<Rightarrow> Accessory" where
  "Accessory_SetCategory cat a = a\<lparr>acc_category := cat\<rparr>"

definition Accessory_AddService :: "Service \<Rightarrow> Accessory \<Rightarrow> Accessory" where
  "Accessory_AddService svc a = a\<lparr>acc_services := acc_services a @ [svc]\<rparr>"

definition Accessory_AddHAPService :: "Service \<Rightarrow> Accessory \<Rightarrow> Accessory" where
  "Accessory_AddHAPService svc a = a\<lparr>acc_services := acc_services a @ [svc]\<rparr>"

text \<open>
  \<open>hap::WindowCovering::InMode\<close>, the value of
  \<open>static_cast<InMode>(wc_cfg->in_mode)\<close>. The numbers of the enumerators are
  declared in another file; \<open>kNoEnumerator\<close> stands for an integer that names none
  of them, for which no \<open>case\<close> of the \<open>switch\<close> is taken.
\<close>

datatype InMode = kSeparateMomentary | kSeparateToggle | kSingle | kDetached | kNoEnumerator

record mgos_config_wc =
  wc_name :: string
  wc_in_mode :: InMode
  wc_swap_inputs :: bool

text \<open>
  The configuration sections handed on by pointer: \<open>mgos_sys_config_get_in1()\<close>,
  \<open>mgos_sys_config_get_sw1()\<close>, \<open>mgos_sys_config_get_gdo1()\<close> and so on.
\<close>

datatype mgos_config_in = cfg_in1 | cfg_in2

datatype mgos_config_sw = cfg_sw1 | cfg_sw2

datatype mgos_config_gdo = cfg_gdo1

record sys_config =
  shelly_mode :: int
  wc1 :: mgos_config_wc
  shelly_legacy_hap_layout :: bool
  sw1_in_mode :: int
  sw2_in_mode :: int

text \<open>
  The calls made on accessories and on the two factory functions, in order. An
  accessory is named by its place: \<open>(*accs)[i]\<close>, or the local \<open>acc\<close> that is not
  in the vector yet.
\<close>

datatype acc_place = accs_at nat | local_acc

datatype call =
    SetCategory acc_place HAPAccessoryCategory
  | AddService acc_place Service
  | AddHAPService acc_place Service
  | CallCreateHAPInput int mgos_config_in
  | CallCreateHAPSwitch int mgos_config_sw mgos_config_in bool


text \<open>The vectors \<open>comps\<close> and \<open>accs\<close>, and the calls made so far.\<close>

record graph =
  comps :: "Component list"
  accs :: "Accessory list"
  calls :: "call list"

text \<open>
  The collaborators of \<open>CreateComponents\<close>, all defined in other files: the registry
  lookups, the two constructors (\<open>None\<close> is a null pointer), the two \<open>Init\<close>
  methods, the macro \<open>SHELLY_HAP_AID_BASE_WINDOW_COVERING\<close>, and the two factory
  functions, which receive \<open>comps\<close> and \<open>accs\<close> and may change both.
\<close>

record collab =
  FindInput :: "int \<Rightarrow> Input option"
  FindOutput :: "int \<Rightarrow> Output option"
  FindPM :: "int \<Rightarrow> PowerMeter option"
  new_WindowCovering ::
    "int \<Rightarrow> Input option \<Rightarrow> Input option \<Rightarrow> Output option \<Rightarrow> Output option \<Rightarrow>
     PowerMeter option \<Rightarrow> PowerMeter option \<Rightarrow> mgos_config_wc \<Rightarrow> Component option"
  new_GarageDoorOpener ::
    "int \<Rightarrow> Input option \<Rightarrow> Input option \<Rightarrow> Output option \<Rightarrow> Output option \<Rightarrow>
     mgos_config_gdo \<Rightarrow> Component option"
  Init :: "Component \<Rightarrow> Status"
  SHELLY_HAP_AID_BASE_WINDOW_COVERING :: int
  CreateHAPInput ::
    "int \<Rightarrow> mgos_config_in \<Rightarrow> Component list \<times> Accessory list \<Rightarrow>
     Component list \<times> Accessory list"
  CreateHAPSwitch ::
    "int \<Rightarrow> mgos_config_sw \<Rightarrow> mgos_config_in \<Rightarrow> bool \<Rightarrow>
     Component list \<times> Accessory list \<Rightarrow> Component list \<times> Accessory list"

subsection \<open>CreateComponents\<close>

text \<open>A call of \<open>hap::CreateHAPInput(id, cfg, comps, accs, svr)\<close>.\<close>

definition call_CreateHAPInput :: "collab \<Rightarrow> int \<Rightarrow> mgos_config_in \<Rightarrow> graph \<Rightarrow> graph" where
  "call_CreateHAPInput e i c g =
     (let (cs, as) = CreateHAPInput e i c (comps g, accs g)
      in g\<lparr>comps := cs, accs := as, calls := calls g @ [CallCreateHAPInput i c]\<rparr>)"

text \<open>A call of \<open>CreateHAPSwitch(id, sw_cfg, in_cfg, comps, accs, svr, to_pri_acc)\<close>.\<close>

definition call_CreateHAPSwitch ::
  "collab \<Rightarrow> int \<Rightarrow> mgos_config_sw \<Rightarrow> mgos_config_in \<Rightarrow> bool \<Rightarrow> graph \<Rightarrow> graph" where
  "call_CreateHAPSwitch e i sc ic to_pri_acc g =
     (let (cs, as) = CreateHAPSwitch e i sc ic to_pri_acc (comps g, accs g)
      in g\<lparr>comps := cs, accs := as,
           calls := calls g @ [CallCreateHAPSwitch i sc ic to_pri_acc]\<rparr>)"

text \<open>
  \<open>pri_acc = (*accs)[0].get(); pri_acc->SetCategory(cat); pri_acc->AddService(svc)\<close>.
  Element 0 of an empty vector is undefined behaviour: the result is \<open>None\<close>.
\<close>

definition pri_acc_attach :: "HAPAccessoryCategory \<Rightarrow> Service \<Rightarrow> graph \<Rightarrow> graph option" where
  "pri_acc_attach cat svc g =
     (case accs g of
        [] \<Rightarrow> None
      | pri_acc # rest \<Rightarrow>
          Some (g\<lparr>accs := Accessory_AddService svc (Accessory_SetCategory cat pri_acc) # rest,
                  calls := calls g @ [SetCategory (accs_at 0) cat, AddService (accs_at 0) svc]\<rparr>))"

text \<open>
  Lines 116 to 122, shared by the cases \<open>kSingle\<close> and \<open>kDetached\<close>: the new
  accessory is built, gets the accessory information service and then the Component,
  and is pushed to \<open>accs\<close>.
\<close>

definition new_acc_attach :: "collab \<Rightarrow> mgos_config_wc \<Rightarrow> int \<Rightarrow> Service \<Rightarrow> graph \<Rightarrow> graph" where
  "new_acc_attach e wc_cfg i svc g =
     (let acc = new_Accessory (SHELLY_HAP_AID_BASE_WINDOW_COVERING e + i)
                   kHAPAccessoryCategory_BridgedAccessory (wc_name wc_cfg);
          acc1 = Accessory_AddHAPService mgos_hap_accessory_information_service acc;
          acc2 = Accessory_AddService svc acc1
      in g\<lparr>accs := accs g @ [acc2],
           calls := calls g @ [AddHAPService local_acc mgos_hap_accessory_information_service,
                               AddService local_acc svc]\<rparr>)"

definition emplace_back_comp :: "Component \<Rightarrow> graph \<Rightarrow> graph" where
  "emplace_back_comp c g = g\<lparr>comps := comps g @ [c]\<rparr>"

text \<open>The expression \<open>new hap::WindowCovering(id, in1, in2, ...)\<close> of line 98.\<close>

definition construct_wc :: "collab \<Rightarrow> sys_config \<Rightarrow> Component option" where
  "construct_wc e cfg =
     new_WindowCovering e 1 (FindInput e 1) (FindInput e 2) (FindOutput e 1) (FindOutput e 2)
       (FindPM e 1) (FindPM e 2) (wc1 cfg)"

text \<open>The expression \<open>new hap::GarageDoorOpener(1, ...)\<close> of line 140.\<close>

definition construct_gdo :: "collab \<Rightarrow> Component option" where
  "construct_gdo e =
     new_GarageDoorOpener e 1 (FindInput e 1) (FindInput e 2) (FindOutput e 1) (FindOutput e 2)
       cfg_gdo1"

text \<open>The \<open>switch (im)\<close> of the roller-shutter branch, lines 105 to 133.\<close>

fun wc_switch :: "collab \<Rightarrow> mgos_config_wc \<Rightarrow> Component \<Rightarrow> InMode \<Rightarrow> graph \<Rightarrow> graph option" where
  "wc_switch e wc_cfg wc kSeparateMomentary g =
     pri_acc_attach kHAPAccessoryCategory_WindowCoverings (service_of wc) g"
| "wc_switch e wc_cfg wc kSeparateToggle g =
     pri_acc_attach kHAPAccessoryCategory_WindowCoverings (service_of wc) g"
| "wc_switch e wc_cfg wc kSingle g =
     (let g1 = new_acc_attach e wc_cfg 1 (service_of wc) g
      in if wc_swap_inputs wc_cfg then Some (call_CreateHAPInput e 1 cfg_in1 g1)
         else Some (call_CreateHAPInput e 2 cfg_in2 g1))"
| "wc_switch e wc_cfg wc kDetached g =
     (let g1 = new_acc_attach e wc_cfg 1 (service_of wc) g
      in Some (call_CreateHAPInput e 2 cfg_in2 (call_CreateHAPInput e 1 cfg_in1 g1)))"
| "wc_switch e wc_cfg wc kNoEnumerator g = Some g"

definition CreateComponents :: "collab \<Rightarrow> sys_config \<Rightarrow> graph \<Rightarrow> graph option" where
  "CreateComponents e cfg g =
     (if shelly_mode cfg = 1 then
        (case construct_wc e cfg of
           None \<Rightarrow> Some g
         | Some wc0 \<Rightarrow>
             if \<not> ok (Init e wc0) then Some g
             else
               (let wc = set_primary True wc0 in
                case wc_switch e (wc1 cfg) wc (wc_in_mode (wc1 cfg)) g of
                  None \<Rightarrow> None
                | Some g1 \<Rightarrow> Some (emplace_back_comp wc g1)))
      else if shelly_mode cfg = 2 then
        (case construct_gdo e of
           None \<Rightarrow> Some g
         | Some gdo0 \<Rightarrow>
             if \<not> ok (Init e gdo0) then Some g
             else
               (let gdo = set_primary True gdo0 in
                case pri_acc_attach kHAPAccessoryCategory_GarageDoorOpeners (service_of gdo) g of
                  None \<Rightarrow> None
                | Some g1 \<Rightarrow> Some (emplace_back_comp gdo g1)))
      else
        (let compat_20 = (shelly_legacy_hap_layout cfg \<and> sw1_in_mode cfg \<noteq> 3
                          \<and> sw2_in_mode cfg \<noteq> 3)
         in if \<not> compat_20 then
              Some (call_CreateHAPSwitch e 2 cfg_sw2 cfg_in2 False
                     (call_CreateHAPSwitch e 1 cfg_sw1 cfg_in1 False g))
            else
              (let g2 = call_CreateHAPSwitch e 1 cfg_sw1 cfg_in1 True
                          (call_CreateHAPSwitch e 2 cfg_sw2 cfg_in2 True g)
               in Some (g2\<lparr>comps := rev (comps g2)\<rparr>))))"

subsection \<open>Example collaborators and states\<close>

text \<open>Hardware where the chip and both meters come up.\<close>

definition hw_all_ok :: hw where
  "hw_all_ok = \<lparr>mgos_ade7953_create = Some 1, pm_Init = (\<lambda>pm. OK)\<rparr>"

text \<open>Hardware where \<open>mgos_ade7953_create\<close> returns null.\<close>

definition hw_no_chip :: hw where
  "hw_no_chip = \<lparr>mgos_ade7953_create = None, pm_Init = (\<lambda>pm. OK)\<rparr>"

text \<open>Hardware where the chip comes up and \<open>Init\<close> of the first meter fails.\<close>

definition hw_pm1_fails :: hw where
  "hw_pm1_fails =
     \<lparr>mgos_ade7953_create = Some 1,
      pm_Init = (\<lambda>pm. if pm_id pm = 1 then Errorf (STATUS_OTHER 2) ''pm1'' else OK)\<rparr>"

text \<open>Hardware where the chip comes up and \<open>Init\<close> of the second meter fails.\<close>

definition hw_pm2_fails :: hw where
  "hw_pm2_fails =
     \<lparr>mgos_ade7953_create = Some 1,
      pm_Init = (\<lambda>pm. if pm_id pm = 2 then Errorf (STATUS_OTHER 2) ''pm2'' else OK)\<rparr>"

text \<open>
  Registry lookups by logical index, over the registry that \<open>CreatePeripherals\<close>
  builds on hardware where everything comes up.
\<close>

definition example_FindInput :: "int \<Rightarrow> Input option" where
  "example_FindInput i =
     find (\<lambda>x. in_id x = i) (inputs (CreatePeripherals hw_all_ok empty_registry))"

definition example_FindOutput :: "int \<Rightarrow> Output option" where
  "example_FindOutput i =
     find (\<lambda>x. out_id x = i) (outputs (CreatePeripherals hw_all_ok empty_registry))"

definition example_FindPM :: "int \<Rightarrow> PowerMeter option" where
  "example_FindPM i =
     find (\<lambda>x. pm_id x = i) (pms (CreatePeripherals hw_all_ok empty_registry))"

text \<open>
  A \<open>CreateHAPInput\<close> that appends one input Component and one accessory holding it.
\<close>

definition example_CreateHAPInput ::
  "int \<Rightarrow> mgos_config_in \<Rightarrow> Component list \<times> Accessory list \<Rightarrow>
   Component list \<times> Accessory list" where
  "example_CreateHAPInput i c ca =
     (fst ca @ [\<lparr>comp_type = kInput, comp_id = i, primary = False\<rparr>],
      snd ca @ [\<lparr>acc_aid = 1536 + i,
                 acc_category = kHAPAccessoryCategory_BridgedAccessory,
                 acc_name = ''Input'',
                 acc_services = [mgos_hap_accessory_information_service,
                                 ComponentService kInput i]\<rparr>])"

text \<open>
  A \<open>CreateHAPSwitch\<close> that appends one switch Component, and one accessory for it
  unless it goes to the primary accessory.
\<close>

definition example_switch :: "int \<Rightarrow> bool \<Rightarrow> Component" where
  "example_switch i to_pri_acc = \<lparr>comp_type = kSwitch, comp_id = i, primary = to_pri_acc\<rparr>"

definition example_CreateHAPSwitch ::
  "int \<Rightarrow> mgos_config_sw \<Rightarrow> mgos_config_in \<Rightarrow> bool \<Rightarrow> Component list \<times> Accessory list \<Rightarrow>
   Component list \<times> Accessory list" where
  "example_CreateHAPSwitch i sc ic to_pri_acc ca =
     (fst ca @ [example_switch i to_pri_acc],
      if to_pri_acc then snd ca
      else snd ca @ [\<lparr>acc_aid = 256 + i,
                      acc_category = kHAPAccessoryCategory_BridgedAccessory,
                      acc_name = ''Switch'',
                      acc_services = [mgos_hap_accessory_information_service,
                                      ComponentService kSwitch i]\<rparr>])"

text \<open>Collaborators with which every constructor and every \<open>Init\<close> succeeds.\<close>

definition collab_ok :: collab where
  "collab_ok =
     \<lparr>FindInput = example_FindInput,
      FindOutput = example_FindOutput,
      FindPM = example_FindPM,
      new_WindowCovering = (\<lambda>i in1 in2 out1 out2 pm1 pm2 c.
         Some \<lparr>comp_type = kWindowCovering, comp_id = i, primary = False\<rparr>),
      new_GarageDoorOpener = (\<lambda>i in1 in2 out1 out2 c.
         Some \<lparr>comp_type = kGarageDoorOpener, comp_id = i, primary = False\<rparr>),
      Init = (\<lambda>c. OK),
      SHELLY_HAP_AID_BASE_WINDOW_COVERING = 1024,
      CreateHAPInput = example_CreateHAPInput,
      CreateHAPSwitch = example_CreateHAPSwitch\<rparr>"

text \<open>The same collaborators, but every \<open>Init\<close> of a Component fails.\<close>

definition collab_init_fails :: collab where
  "collab_init_fails = collab_ok\<lparr>Init := (\<lambda>c. Errorf (STATUS_OTHER 3) ''init'')\<rparr>"

text \<open>The same collaborators, but both constructors give a null pointer.\<close>

definition collab_null :: collab where
  "collab_null =
     collab_ok\<lparr>new_WindowCovering := (\<lambda>i in1 in2 out1 out2 pm1 pm2 c. None),
               new_GarageDoorOpener := (\<lambda>i in1 in2 out1 out2 c. None)\<rparr>"

text \<open>Configurations: roller-shutter mode, garage-door mode, normal mode.\<close>

definition cfg_roller :: "InMode \<Rightarrow> bool \<Rightarrow> sys_config" where
  "cfg_roller im swap =
     \<lparr>shelly_mode = 1,
      wc1 = \<lparr>wc_name = ''Window'', wc_in_mode = im, wc_swap_inputs = swap\<rparr>,
      shelly_legacy_hap_layout = False, sw1_in_mode = 0, sw2_in_mode = 0\<rparr>"

definition cfg_garage :: sys_config where
  "cfg_garage = (cfg_roller kSeparateMomentary False)\<lparr>shelly_mode := 2\<rparr>"

definition cfg_normal :: "bool \<Rightarrow> int \<Rightarrow> int \<Rightarrow> sys_config" where
  "cfg_normal legacy m1 m2 =
     \<lparr>shelly_mode = 0,
      wc1 = \<lparr>wc_name = ''Window'', wc_in_mode = kSeparateMomentary, wc_swap_inputs = False\<rparr>,
      shelly_legacy_hap_layout = legacy, sw1_in_mode = m1, sw2_in_mode = m2\<rparr>"

text \<open>
  The graph before \<open>CreateComponents\<close> runs: no Component, and the bridge-primary
  accessory alone in \<open>accs\<close>.
\<close>

definition bridge_acc :: Accessory where
  "bridge_acc =
     \<lparr>acc_aid = 1, acc_category = kHAPAccessoryCategory_Other 2, acc_name = ''Shelly'',
      acc_services = [mgos_hap_accessory_information_service]\<rparr>"

definition graph0 :: graph where
  "graph0 = \<lparr>comps = [], accs = [bridge_acc], calls = []\<rparr>"

section \<open>PowerMeterInit\<close>

text \<open>The four ways through \<open>PowerMeterInit\<close>, each with the state it leaves.\<close>

lemma PowerMeterInit_no_chip:
  "mgos_ade7953_create h = None \<Longrightarrow>
   PowerMeterInit h r =
     (Errorf STATUS_UNAVAILABLE ''Failed to init ADE7953'',
      r\<lparr>s_ade7953 := None,
        trace := trace r @ [Ade7953Create, LOG_ERROR ''Failed to init ADE7953'' []]\<rparr>)"
  by (simp add: PowerMeterInit_def emit_def)

lemma PowerMeterInit_pm1_fails:
  "mgos_ade7953_create h = Some c \<Longrightarrow>
   \<not> ok (pm_Init h (ADE7953PowerMeter 1 c 1)) \<Longrightarrow>
   PowerMeterInit h r =
     (pm_Init h (ADE7953PowerMeter 1 c 1),
      r\<lparr>s_ade7953 := Some c,
        trace := trace r @ [Ade7953Create, NewADE7953PowerMeter 1 c 1, PowerMeterInitCall 1]\<rparr>)"
  by (simp add: PowerMeterInit_def emit_def)

lemma PowerMeterInit_pm2_fails:
  "mgos_ade7953_create h = Some c \<Longrightarrow>
   ok (pm_Init h (ADE7953PowerMeter 1 c 1)) \<Longrightarrow>
   \<not> ok (pm_Init h (ADE7953PowerMeter 2 c 0)) \<Longrightarrow>
   PowerMeterInit h r =
     (pm_Init h (ADE7953PowerMeter 2 c 0),
      r\<lparr>s_ade7953 := Some c,
        trace := trace r @ [Ade7953Create, NewADE7953PowerMeter 1 c 1, PowerMeterInitCall 1,
                            NewADE7953PowerMeter 2 c 0, PowerMeterInitCall 2]\<rparr>)"
  by (simp add: PowerMeterInit_def emit_def)

lemma PowerMeterInit_success:
  "mgos_ade7953_create h = Some c \<Longrightarrow>
   ok (pm_Init h (ADE7953PowerMeter 1 c 1)) \<Longrightarrow>
   ok (pm_Init h (ADE7953PowerMeter 2 c 0)) \<Longrightarrow>
   PowerMeterInit h r =
     (OK,
      r\<lparr>s_ade7953 := Some c,
        trace := trace r @ [Ade7953Create, NewADE7953PowerMeter 1 c 1, PowerMeterInitCall 1,
                            NewADE7953PowerMeter 2 c 0, PowerMeterInitCall 2],
        pms := pms r @ [ADE7953PowerMeter 1 c 1, ADE7953PowerMeter 2 c 0]\<rparr>)"
  by (simp add: PowerMeterInit_def emit_def)

lemma PowerMeterInit_cases:
  obtains
    (no_chip) "mgos_ade7953_create h = None"
  | (pm1_fails) c where "mgos_ade7953_create h = Some c"
      "\<not> ok (pm_Init h (ADE7953PowerMeter 1 c 1))"
  | (pm2_fails) c where "mgos_ade7953_create h = Some c"
      "ok (pm_Init h (ADE7953PowerMeter 1 c 1))" "\<not> ok (pm_Init h (ADE7953PowerMeter 2 c 0))"
  | (success) c where "mgos_ade7953_create h = Some c"
      "ok (pm_Init h (ADE7953PowerMeter 1 c 1))" "ok (pm_Init h (ADE7953PowerMeter 2 c 0))"
  by (cases "mgos_ade7953_create h") auto

text \<open>What \<open>PowerMeterInit\<close> leaves alone, and what it adds to the trace.\<close>

lemma PowerMeterInit_frame:
  "inputs (snd (PowerMeterInit h r)) = inputs r \<and>
   outputs (snd (PowerMeterInit h r)) = outputs r \<and>
   sys_temp (snd (PowerMeterInit h r)) = sys_temp r"
  by (cases h rule: PowerMeterInit_cases)
     (simp_all add: PowerMeterInit_no_chip PowerMeterInit_pm1_fails PowerMeterInit_pm2_fails
        PowerMeterInit_success)

lemma PowerMeterInit_trace:
  "\<exists>evs. trace (snd (PowerMeterInit h r)) = trace r @ Ade7953Create # evs \<and>
         filter is_NewOutputPin evs = [] \<and> filter is_InputInit evs = [] \<and>
         filter is_AddHandler evs = []"
  by (cases h rule: PowerMeterInit_cases)
     (simp_all add: PowerMeterInit_no_chip PowerMeterInit_pm1_fails PowerMeterInit_pm2_fails
        PowerMeterInit_success)

text \<open>The status returned does not depend on the registry.\<close>

lemma PowerMeterInit_status_indep:
  "fst (PowerMeterInit h r) = fst (PowerMeterInit h r')"
  by (cases h rule: PowerMeterInit_cases)
     (simp_all add: PowerMeterInit_no_chip PowerMeterInit_pm1_fails PowerMeterInit_pm2_fails
        PowerMeterInit_success)

text \<open>
  What \<open>PowerMeterInit\<close> does to \<open>pms\<close>, to the global and to the trace does
  not depend on the rest of the registry.
\<close>

lemma PowerMeterInit_pms_indep:
  "pms r' = pms r \<Longrightarrow> pms (snd (PowerMeterInit h r')) = pms (snd (PowerMeterInit h r))"
  by (cases h rule: PowerMeterInit_cases)
     (simp_all add: PowerMeterInit_no_chip PowerMeterInit_pm1_fails PowerMeterInit_pm2_fails
        PowerMeterInit_success)

lemma PowerMeterInit_handle:
  "s_ade7953 (snd (PowerMeterInit h r)) = mgos_ade7953_create h"
  by (cases h rule: PowerMeterInit_cases)
     (simp_all add: PowerMeterInit_no_chip PowerMeterInit_pm1_fails PowerMeterInit_pm2_fails
        PowerMeterInit_success)

lemma PowerMeterInit_events_indep:
  "drop (length (trace r')) (trace (snd (PowerMeterInit h r'))) =
   drop (length (trace r)) (trace (snd (PowerMeterInit h r)))"
  by (cases h rule: PowerMeterInit_cases)
     (simp_all add: PowerMeterInit_no_chip PowerMeterInit_pm1_fails PowerMeterInit_pm2_fails
        PowerMeterInit_success)

lemma PowerMeterInit_trace_prefix:
  "trace (snd (PowerMeterInit h r)) =
     trace r @ drop (length (trace r)) (trace (snd (PowerMeterInit h r)))"
  by (cases h rule: PowerMeterInit_cases)
     (simp_all add: PowerMeterInit_no_chip PowerMeterInit_pm1_fails PowerMeterInit_pm2_fails
        PowerMeterInit_success)

lemma PowerMeterInit_failure_pms:
  "\<not> ok (fst (PowerMeterInit h r)) \<Longrightarrow> pms (snd (PowerMeterInit h r)) = pms r"
  by (cases h rule: PowerMeterInit_cases)
     (simp_all add: PowerMeterInit_no_chip PowerMeterInit_pm1_fails PowerMeterInit_pm2_fails
        PowerMeterInit_success)

text \<open>
  Claim C3. Power-meter bring-up is both-or-neither. If \<open>mgos_ade7953_create\<close>
  returns null, \<open>PowerMeterInit\<close> returns the Unavailable error and \<open>pms\<close> is as it
  was. If the chip is created and \<open>Init\<close> of the first meter fails, or the first
  succeeds and the second fails, that error is returned and \<open>pms\<close> is as it was. If
  the chip is created and both \<open>Init\<close> succeed, \<open>OK\<close> is returned and exactly the
  two meters are appended. So \<open>pms\<close> changes only on success, and then by two.
\<close>

theorem PowerMeterInit_both_or_neither:
  "(mgos_ade7953_create h = None \<longrightarrow>
      fst (PowerMeterInit h r) = Errorf STATUS_UNAVAILABLE ''Failed to init ADE7953'' \<and>
      pms (snd (PowerMeterInit h r)) = pms r) \<and>
   (\<forall>c. mgos_ade7953_create h = Some c \<and> \<not> ok (pm_Init h (ADE7953PowerMeter 1 c 1)) \<longrightarrow>
      fst (PowerMeterInit h r) = pm_Init h (ADE7953PowerMeter 1 c 1) \<and>
      pms (snd (PowerMeterInit h r)) = pms r) \<and>
   (\<forall>c. mgos_ade7953_create h = Some c \<and> ok (pm_Init h (ADE7953PowerMeter 1 c 1)) \<and>
        \<not> ok (pm_Init h (ADE7953PowerMeter 2 c 0)) \<longrightarrow>
      fst (PowerMeterInit h r) = pm_Init h (ADE7953PowerMeter 2 c 0) \<and>
      pms (snd (PowerMeterInit h r)) = pms r) \<and>
   (\<forall>c. mgos_ade7953_create h = Some c \<and> ok (pm_Init h (ADE7953PowerMeter 1 c 1)) \<and>
        ok (pm_Init h (ADE7953PowerMeter 2 c 0)) \<longrightarrow>
      fst (PowerMeterInit h r) = OK \<and>
      pms (snd (PowerMeterInit h r)) =
        pms r @ [ADE7953PowerMeter 1 c 1, ADE7953PowerMeter 2 c 0]) \<and>
   (pms (snd (PowerMeterInit h r)) \<noteq> pms r \<longrightarrow>
      ok (fst (PowerMeterInit h r)) \<and>
      length (pms (snd (PowerMeterInit h r))) = length (pms r) + 2)"
proof (cases h rule: PowerMeterInit_cases)
  case no_chip
  then show ?thesis by (simp add: PowerMeterInit_no_chip)
next
  case (pm1_fails c)
  then show ?thesis by (simp add: PowerMeterInit_pm1_fails)
next
  case (pm2_fails c)
  then show ?thesis by (simp add: PowerMeterInit_pm2_fails)
next
  case (success c)
  then show ?thesis by (simp add: PowerMeterInit_success)
qed

text \<open>
  The four cases on the empty registry: no chip, first meter fails, second meter fails,
  all succeed.
\<close>

theorem PowerMeterInit_both_or_neither_witness:
  "fst (PowerMeterInit hw_no_chip empty_registry) =
     Errorf STATUS_UNAVAILABLE ''Failed to init ADE7953'' \<and>
   pms (snd (PowerMeterInit hw_no_chip empty_registry)) = [] \<and>
   fst (PowerMeterInit hw_pm1_fails empty_registry) = Errorf (STATUS_OTHER 2) ''pm1'' \<and>
   pms (snd (PowerMeterInit hw_pm1_fails empty_registry)) = [] \<and>
   fst (PowerMeterInit hw_pm2_fails empty_registry) = Errorf (STATUS_OTHER 2) ''pm2'' \<and>
   pms (snd (PowerMeterInit hw_pm2_fails empty_registry)) = [] \<and>
   fst (PowerMeterInit hw_all_ok empty_registry) = OK \<and>
   pms (snd (PowerMeterInit hw_all_ok empty_registry)) =
     [ADE7953PowerMeter 1 1 1, ADE7953PowerMeter 2 1 0]"
  using PowerMeterInit_both_or_neither [of hw_no_chip empty_registry]
    PowerMeterInit_both_or_neither [of hw_pm1_fails empty_registry]
    PowerMeterInit_both_or_neither [of hw_pm2_fails empty_registry]
    PowerMeterInit_both_or_neither [of hw_all_ok empty_registry]
  by (simp add: hw_no_chip_def hw_pm1_fails_def hw_pm2_fails_def hw_all_ok_def
      empty_registry_def ADE7953PowerMeter_def)

text \<open>
  Claim C9. Whenever \<open>PowerMeterInit\<close> returns \<open>OK\<close>, the chip handle \<open>c\<close> is
  in \<open>s_ade7953\<close> and the two meters appended are, in this order, the meter with
  logical index 1 on channel 1 of \<open>c\<close> and the meter with logical index 2 on channel
  0 of \<open>c\<close>: the channel numbers run against the logical indices.
\<close>

theorem PowerMeterInit_channel_binding:
  "fst (PowerMeterInit h r) = OK \<Longrightarrow>
   \<exists>c. mgos_ade7953_create h = Some c \<and> s_ade7953 (snd (PowerMeterInit h r)) = Some c \<and>
       pms (snd (PowerMeterInit h r)) =
         pms r @ [\<lparr>pm_id = 1, pm_chip = c, pm_channel = 1\<rparr>,
                  \<lparr>pm_id = 2, pm_chip = c, pm_channel = 0\<rparr>]"
proof (cases h rule: PowerMeterInit_cases)
  case no_chip
  assume "fst (PowerMeterInit h r) = OK"
  with no_chip show ?thesis by (simp add: PowerMeterInit_no_chip)
next
  case (pm1_fails c)
  assume "fst (PowerMeterInit h r) = OK"
  with pm1_fails show ?thesis by (simp add: PowerMeterInit_pm1_fails)
next
  case (pm2_fails c)
  assume "fst (PowerMeterInit h r) = OK"
  with pm2_fails show ?thesis by (simp add: PowerMeterInit_pm2_fails)
next
  case (success c)
  then show ?thesis by (simp add: PowerMeterInit_success ADE7953PowerMeter_def)
qed

text \<open>On hardware where everything comes up: index 1 on channel 1, index 2 on channel 0.\<close>

theorem PowerMeterInit_channel_binding_witness:
  "fst (PowerMeterInit hw_all_ok empty_registry) = OK \<and>
   map (\<lambda>p. (pm_id p, pm_channel p)) (pms (snd (PowerMeterInit hw_all_ok empty_registry))) =
     [(1, 1), (2, 0)]"
proof -
  have st: "fst (PowerMeterInit hw_all_ok empty_registry) = OK"
    by (simp add: PowerMeterInit_def hw_all_ok_def emit_def)
  from PowerMeterInit_channel_binding [OF st] st show ?thesis
    by (auto simp: empty_registry_def)
qed

text \<open>
  Claim C10. If the chip is created and \<open>Init\<close> of either meter fails,
  \<open>PowerMeterInit\<close> returns that error with \<open>pms\<close> as it was, and the global
  \<open>s_ade7953\<close> still holds the handle: it is not reset to null.
\<close>

theorem PowerMeterInit_chip_kept:
  "mgos_ade7953_create h = Some c \<Longrightarrow>
   \<not> ok (pm_Init h (ADE7953PowerMeter 1 c 1)) \<or> \<not> ok (pm_Init h (ADE7953PowerMeter 2 c 0)) \<Longrightarrow>
   \<not> ok (fst (PowerMeterInit h r)) \<and>
   fst (PowerMeterInit h r) \<in>
     {pm_Init h (ADE7953PowerMeter 1 c 1), pm_Init h (ADE7953PowerMeter 2 c 0)} \<and>
   pms (snd (PowerMeterInit h r)) = pms r \<and>
   s_ade7953 (snd (PowerMeterInit h r)) = Some c"
  by (cases "ok (pm_Init h (ADE7953PowerMeter 1 c 1))")
     (auto simp: PowerMeterInit_pm1_fails PowerMeterInit_pm2_fails)

text \<open>With the first meter failing and with the second: no meter, and the handle 1.\<close>

theorem PowerMeterInit_chip_kept_witness:
  "pms (snd (PowerMeterInit hw_pm1_fails empty_registry)) = [] \<and>
   s_ade7953 (snd (PowerMeterInit hw_pm1_fails empty_registry)) = Some 1 \<and>
   pms (snd (PowerMeterInit hw_pm2_fails empty_registry)) = [] \<and>
   s_ade7953 (snd (PowerMeterInit hw_pm2_fails empty_registry)) = Some 1"
  using PowerMeterInit_chip_kept [of hw_pm1_fails 1 empty_registry]
    PowerMeterInit_chip_kept [of hw_pm2_fails 1 empty_registry]
  by (simp add: hw_pm1_fails_def hw_pm2_fails_def empty_registry_def ADE7953PowerMeter_def)

section \<open>CreatePeripherals\<close>

lemma CreatePeripherals_inputs:
  "inputs (CreatePeripherals h r) =
     inputs r @ [Input_AddHandler (HandleInputResetSequence 1 4)
                   (InputPin 1 13 1 MGOS_GPIO_PULL_NONE True),
                 InputPin 2 5 1 MGOS_GPIO_PULL_NONE False]"
  using PowerMeterInit_frame [of h]
  by (simp add: CreatePeripherals_def emit_def Let_def split_beta InputPin_def)

lemma CreatePeripherals_outputs:
  "outputs (CreatePeripherals h r) = outputs r @ [OutputPin 1 4 1, OutputPin 2 15 1]"
  using PowerMeterInit_frame [of h]
  by (simp add: CreatePeripherals_def emit_def Let_def split_beta)

lemma CreatePeripherals_sys_temp:
  "sys_temp (CreatePeripherals h r) = Some (TempSensorSDNT1608X103F3950 0)"
  by (simp add: CreatePeripherals_def emit_def Let_def split_beta)

text \<open>
  The calls of one run: seven fixed calls, then those of \<open>PowerMeterInit\<close> (which
  start with the creation of the chip driver and hold no construction of an output, no
  \<open>Init\<close> of an input and no \<open>AddHandler\<close>), the log line if it failed, and the
  construction of the temperature sensor.
\<close>

lemma CreatePeripherals_trace:
  "\<exists>evs. trace (CreatePeripherals h r) =
           trace r @
           [NewOutputPin 1 4 1, NewOutputPin 2 15 1,
            NewInputPin 1 13 1 MGOS_GPIO_PULL_NONE True,
            AddHandler 1 (HandleInputResetSequence 1 4), InputInit 1,
            NewInputPin 2 5 1 MGOS_GPIO_PULL_NONE False, InputInit 2] @
           Ade7953Create # evs @ [NewTempSensor 0] \<and>
         filter is_NewOutputPin evs = [] \<and> filter is_InputInit evs = [] \<and>
         filter is_AddHandler evs = [] \<and>
         (\<not> ok (fst (PowerMeterInit h r)) \<longrightarrow>
            evs \<noteq> [] \<and>
            last evs = LOG_ERROR ''Failed to init ADE7953: %s'' [fst (PowerMeterInit h r)])"
proof -
  define r11 where "r11 =
    r\<lparr>outputs := outputs r @ [OutputPin 1 4 1, OutputPin 2 15 1],
      trace := trace r @ [NewOutputPin 1 4 1, NewOutputPin 2 15 1,
            NewInputPin 1 13 1 MGOS_GPIO_PULL_NONE True,
            AddHandler 1 (HandleInputResetSequence 1 4), InputInit 1,
            NewInputPin 2 5 1 MGOS_GPIO_PULL_NONE False, InputInit 2],
      inputs := inputs r @ [Input_AddHandler (HandleInputResetSequence 1 4)
                   (InputPin 1 13 1 MGOS_GPIO_PULL_NONE True),
                 InputPin 2 5 1 MGOS_GPIO_PULL_NONE False]\<rparr>"
  obtain evs where evs: "trace (snd (PowerMeterInit h r11)) = trace r11 @ Ade7953Create # evs"
    "filter is_NewOutputPin evs = []" "filter is_InputInit evs = []"
    "filter is_AddHandler evs = []"
    using PowerMeterInit_trace [of h r11] by blast
  have st: "fst (PowerMeterInit h r11) = fst (PowerMeterInit h r)"
    by (rule PowerMeterInit_status_indep)
  have tr: "trace (CreatePeripherals h r) =
      trace (snd (PowerMeterInit h r11)) @
      (if \<not> ok (fst (PowerMeterInit h r11))
       then [LOG_ERROR ''Failed to init ADE7953: %s'' [fst (PowerMeterInit h r11)]] else []) @
      [NewTempSensor 0]"
    by (simp add: CreatePeripherals_def emit_def Let_def split_beta r11_def InputPin_def)
  let ?evs = "evs @ (if \<not> ok (fst (PowerMeterInit h r))
       then [LOG_ERROR ''Failed to init ADE7953: %s'' [fst (PowerMeterInit h r)]] else [])"
  have "trace (CreatePeripherals h r) =
           trace r @
           [NewOutputPin 1 4 1, NewOutputPin 2 15 1,
            NewInputPin 1 13 1 MGOS_GPIO_PULL_NONE True,
            AddHandler 1 (HandleInputResetSequence 1 4), InputInit 1,
            NewInputPin 2 5 1 MGOS_GPIO_PULL_NONE False, InputInit 2] @
           Ade7953Create # ?evs @ [NewTempSensor 0]"
    using tr evs(1) st by (simp add: r11_def)
  moreover have "filter is_NewOutputPin ?evs = []" "filter is_InputInit ?evs = []"
    "filter is_AddHandler ?evs = []"
    using evs(2-4) by simp_all
  moreover have "\<not> ok (fst (PowerMeterInit h r)) \<longrightarrow>
      ?evs \<noteq> [] \<and>
      last ?evs = LOG_ERROR ''Failed to init ADE7953: %s'' [fst (PowerMeterInit h r)]"
    by simp
  ultimately show ?thesis by blast
qed

lemma run_events_eq:
  "\<exists>evs. run_events h r =
           [NewOutputPin 1 4 1, NewOutputPin 2 15 1,
            NewInputPin 1 13 1 MGOS_GPIO_PULL_NONE True,
            AddHandler 1 (HandleInputResetSequence 1 4), InputInit 1,
            NewInputPin 2 5 1 MGOS_GPIO_PULL_NONE False, InputInit 2] @
           Ade7953Create # evs @ [NewTempSensor 0] \<and>
         filter is_NewOutputPin evs = [] \<and> filter is_InputInit evs = [] \<and>
         filter is_AddHandler evs = [] \<and>
         (\<not> ok (fst (PowerMeterInit h r)) \<longrightarrow>
            evs \<noteq> [] \<and>
            last evs = LOG_ERROR ''Failed to init ADE7953: %s'' [fst (PowerMeterInit h r)])"
  using CreatePeripherals_trace [of h r] unfolding run_events_def by auto

text \<open>
  Claim C4. In every run of \<open>CreatePeripherals\<close>, whatever the hardware answers, both
  outputs (indices 1 and 2) are constructed before the first \<open>Init\<close> of an input: the
  calls up to the first input \<open>Init\<close> hold the two output constructions, in this
  order; none follows; and the inputs initialised are input 1, then input 2.
\<close>

theorem CreatePeripherals_outputs_before_inputs:
  "filter is_NewOutputPin (takeWhile (\<lambda>e. \<not> is_InputInit e) (run_events h r)) =
     [NewOutputPin 1 4 1, NewOutputPin 2 15 1] \<and>
   filter is_NewOutputPin (dropWhile (\<lambda>e. \<not> is_InputInit e) (run_events h r)) = [] \<and>
   filter is_InputInit (run_events h r) = [InputInit 1, InputInit 2] \<and>
   map out_id (drop (length (outputs r)) (outputs (CreatePeripherals h r))) = [1, 2]"
proof -
  obtain evs where e: "run_events h r =
           [NewOutputPin 1 4 1, NewOutputPin 2 15 1,
            NewInputPin 1 13 1 MGOS_GPIO_PULL_NONE True,
            AddHandler 1 (HandleInputResetSequence 1 4), InputInit 1,
            NewInputPin 2 5 1 MGOS_GPIO_PULL_NONE False, InputInit 2] @
           Ade7953Create # evs @ [NewTempSensor 0]"
    and f: "filter is_NewOutputPin evs = []" "filter is_InputInit evs = []"
    using run_events_eq [of h r] by blast
  show ?thesis
    using f by (simp add: e CreatePeripherals_outputs OutputPin_def)
qed

text \<open>
  \<open>CreatePeripherals\<close> around its call of \<open>PowerMeterInit\<close>: the registry
  \<open>r11\<close> handed to it differs from the starting one in outputs, inputs and trace
  alone, and afterwards only the log line (on failure) and the temperature sensor
  follow.
\<close>

lemma CreatePeripherals_via_PowerMeterInit:
  "\<exists>r11. pms r11 = pms r \<and>
     trace r11 = trace r @
           [NewOutputPin 1 4 1, NewOutputPin 2 15 1,
            NewInputPin 1 13 1 MGOS_GPIO_PULL_NONE True,
            AddHandler 1 (HandleInputResetSequence 1 4), InputInit 1,
            NewInputPin 2 5 1 MGOS_GPIO_PULL_NONE False, InputInit 2] \<and>
     pms (CreatePeripherals h r) = pms (snd (PowerMeterInit h r11)) \<and>
     s_ade7953 (CreatePeripherals h r) = s_ade7953 (snd (PowerMeterInit h r11)) \<and>
     trace (CreatePeripherals h r) =
       trace (snd (PowerMeterInit h r11)) @
       (if ok (fst (PowerMeterInit h r11)) then []
        else [LOG_ERROR ''Failed to init ADE7953: %s'' [fst (PowerMeterInit h r11)]]) @
       [NewTempSensor 0]"
  by (rule exI [where x = "(emit (InputInit 2) (emit (NewInputPin 2 5 1 MGOS_GPIO_PULL_NONE False)
        ((emit (InputInit 1) (emit (AddHandler 1 (HandleInputResetSequence 1 4))
          (emit (NewInputPin 1 13 1 MGOS_GPIO_PULL_NONE True)
            ((emit (NewOutputPin 2 15 1) ((emit (NewOutputPin 1 4 1) r)
               \<lparr>outputs := outputs r @ [OutputPin 1 4 1]\<rparr>))
               \<lparr>outputs := outputs r @ [OutputPin 1 4 1] @ [OutputPin 2 15 1]\<rparr>))))
          \<lparr>inputs := inputs r @ [Input_AddHandler (HandleInputResetSequence 1 4)
                   (InputPin 1 13 1 MGOS_GPIO_PULL_NONE True)]\<rparr>)))
          \<lparr>inputs := inputs r @ [Input_AddHandler (HandleInputResetSequence 1 4)
                   (InputPin 1 13 1 MGOS_GPIO_PULL_NONE True)] @
                 [InputPin 2 5 1 MGOS_GPIO_PULL_NONE False]\<rparr>"])
     (simp add: CreatePeripherals_def emit_def Let_def split_beta InputPin_def)

text \<open>
  Claim C7. A failure of \<open>PowerMeterInit\<close> does not abort \<open>CreatePeripherals\<close>,
  and it is only logged. For every answer of the hardware the function returns with
  the temperature sensor constructed and with the same two outputs and two inputs;
  \<open>pms\<close> and the global \<open>s_ade7953\<close> are exactly as \<open>PowerMeterInit\<close> leaves
  them, so on failure \<open>pms\<close> is as it was before the run. The calls of the run are
  the seven calls on outputs and inputs, then those of \<open>PowerMeterInit\<close>, then the
  log line with the returned error if and only if it failed, then the construction of
  the temperature sensor, and nothing else.
\<close>

theorem CreatePeripherals_completes:
  "sys_temp (CreatePeripherals h r) = Some (TempSensorSDNT1608X103F3950 0) \<and>
   inputs (CreatePeripherals h r) =
     inputs r @ [Input_AddHandler (HandleInputResetSequence 1 4)
                   (InputPin 1 13 1 MGOS_GPIO_PULL_NONE True),
                 InputPin 2 5 1 MGOS_GPIO_PULL_NONE False] \<and>
   outputs (CreatePeripherals h r) = outputs r @ [OutputPin 1 4 1, OutputPin 2 15 1] \<and>
   pms (CreatePeripherals h r) = pms (snd (PowerMeterInit h r)) \<and>
   s_ade7953 (CreatePeripherals h r) = s_ade7953 (snd (PowerMeterInit h r)) \<and>
   run_events h r =
     [NewOutputPin 1 4 1, NewOutputPin 2 15 1,
      NewInputPin 1 13 1 MGOS_GPIO_PULL_NONE True,
      AddHandler 1 (HandleInputResetSequence 1 4), InputInit 1,
      NewInputPin 2 5 1 MGOS_GPIO_PULL_NONE False, InputInit 2] @
     drop (length (trace r)) (trace (snd (PowerMeterInit h r))) @
     (if ok (fst (PowerMeterInit h r)) then []
      else [LOG_ERROR ''Failed to init ADE7953: %s'' [fst (PowerMeterInit h r)]]) @
     [NewTempSensor 0] \<and>
   last (run_events h r) = NewTempSensor 0 \<and>
   Ade7953Create \<in> set (butlast (run_events h r)) \<and>
   (\<not> ok (fst (PowerMeterInit h r)) \<longrightarrow>
      pms (CreatePeripherals h r) = pms r \<and>
      last (butlast (run_events h r)) =
        LOG_ERROR ''Failed to init ADE7953: %s'' [fst (PowerMeterInit h r)])"
proof -
  obtain r11 where r11: "pms r11 = pms r"
    "trace r11 = trace r @
           [NewOutputPin 1 4 1, NewOutputPin 2 15 1,
            NewInputPin 1 13 1 MGOS_GPIO_PULL_NONE True,
            AddHandler 1 (HandleInputResetSequence 1 4), InputInit 1,
            NewInputPin 2 5 1 MGOS_GPIO_PULL_NONE False, InputInit 2]"
    and p: "pms (CreatePeripherals h r) = pms (snd (PowerMeterInit h r11))"
    and s: "s_ade7953 (CreatePeripherals h r) = s_ade7953 (snd (PowerMeterInit h r11))"
    and t: "trace (CreatePeripherals h r) =
       trace (snd (PowerMeterInit h r11)) @
       (if ok (fst (PowerMeterInit h r11)) then []
        else [LOG_ERROR ''Failed to init ADE7953: %s'' [fst (PowerMeterInit h r11)]]) @
       [NewTempSensor 0]"
    using CreatePeripherals_via_PowerMeterInit [of r h] by blast
  let ?pm = "drop (length (trace r)) (trace (snd (PowerMeterInit h r)))"
  have st: "fst (PowerMeterInit h r11) = fst (PowerMeterInit h r)"
    by (rule PowerMeterInit_status_indep)
  have tp: "trace (snd (PowerMeterInit h r11)) = trace r11 @ ?pm"
    using PowerMeterInit_trace_prefix [of h r11] PowerMeterInit_events_indep [of r11 h r]
    by simp
  have P: "pms (CreatePeripherals h r) = pms (snd (PowerMeterInit h r))"
    using p PowerMeterInit_pms_indep [OF r11(1)] by simp
  have S: "s_ade7953 (CreatePeripherals h r) = s_ade7953 (snd (PowerMeterInit h r))"
    using s by (simp add: PowerMeterInit_handle)
  have E: "run_events h r =
     [NewOutputPin 1 4 1, NewOutputPin 2 15 1,
      NewInputPin 1 13 1 MGOS_GPIO_PULL_NONE True,
      AddHandler 1 (HandleInputResetSequence 1 4), InputInit 1,
      NewInputPin 2 5 1 MGOS_GPIO_PULL_NONE False, InputInit 2] @
     ?pm @
     (if ok (fst (PowerMeterInit h r)) then []
      else [LOG_ERROR ''Failed to init ADE7953: %s'' [fst (PowerMeterInit h r)]]) @
     [NewTempSensor 0]"
    unfolding run_events_def t tp st r11(2) by simp
  obtain evs where pm: "?pm = Ade7953Create # evs"
    using PowerMeterInit_trace [of h r] by auto
  have L: "last (run_events h r) = NewTempSensor 0"
    unfolding E by simp
  have B: "butlast (run_events h r) =
     [NewOutputPin 1 4 1, NewOutputPin 2 15 1,
      NewInputPin 1 13 1 MGOS_GPIO_PULL_NONE True,
      AddHandler 1 (HandleInputResetSequence 1 4), InputInit 1,
      NewInputPin 2 5 1 MGOS_GPIO_PULL_NONE False, InputInit 2] @
     ?pm @
     (if ok (fst (PowerMeterInit h r)) then []
      else [LOG_ERROR ''Failed to init ADE7953: %s'' [fst (PowerMeterInit h r)]])"
    unfolding E by (simp add: butlast_append)
  have A: "Ade7953Create \<in> set (butlast (run_events h r))"
    unfolding B pm by simp
  have F: "\<not> ok (fst (PowerMeterInit h r)) \<longrightarrow>
      pms (CreatePeripherals h r) = pms r \<and>
      last (butlast (run_events h r)) =
        LOG_ERROR ''Failed to init ADE7953: %s'' [fst (PowerMeterInit h r)]"
    unfolding B using P PowerMeterInit_failure_pms [of h r] by simp
  show ?thesis
    using P S E L A F
    by (simp only: CreatePeripherals_sys_temp CreatePeripherals_inputs
        CreatePeripherals_outputs simp_thms)
qed


text \<open>
  Without the chip, and with the second meter failing: the sensor is there, no meter is
  registered, the global is what the driver returned, and the error was logged right
  before the sensor was constructed.
\<close>

theorem CreatePeripherals_completes_witness:
  "sys_temp (CreatePeripherals hw_no_chip empty_registry) =
     Some (TempSensorSDNT1608X103F3950 0) \<and>
   pms (CreatePeripherals hw_no_chip empty_registry) = [] \<and>
   s_ade7953 (CreatePeripherals hw_no_chip empty_registry) = None \<and>
   run_events hw_no_chip empty_registry =
     [NewOutputPin 1 4 1, NewOutputPin 2 15 1,
      NewInputPin 1 13 1 MGOS_GPIO_PULL_NONE True,
      AddHandler 1 (HandleInputResetSequence 1 4), InputInit 1,
      NewInputPin 2 5 1 MGOS_GPIO_PULL_NONE False, InputInit 2,
      Ade7953Create, LOG_ERROR ''Failed to init ADE7953'' [],
      LOG_ERROR ''Failed to init ADE7953: %s''
        [Errorf STATUS_UNAVAILABLE ''Failed to init ADE7953''],
      NewTempSensor 0] \<and>
   pms (CreatePeripherals hw_pm2_fails empty_registry) = [] \<and>
   s_ade7953 (CreatePeripherals hw_pm2_fails empty_registry) = Some 1 \<and>
   last (butlast (run_events hw_pm2_fails empty_registry)) =
     LOG_ERROR ''Failed to init ADE7953: %s'' [Errorf (STATUS_OTHER 2) ''pm2'']"
proof -
  have a: "PowerMeterInit hw_no_chip empty_registry =
      (Errorf STATUS_UNAVAILABLE ''Failed to init ADE7953'',
       empty_registry\<lparr>s_ade7953 := None,
         trace := [Ade7953Create, LOG_ERROR ''Failed to init ADE7953'' []]\<rparr>)"
    by (simp add: PowerMeterInit_def hw_no_chip_def emit_def empty_registry_def)
  have b: "PowerMeterInit hw_pm2_fails empty_registry =
      (Errorf (STATUS_OTHER 2) ''pm2'',
       empty_registry\<lparr>s_ade7953 := Some 1,
         trace := [Ade7953Create, NewADE7953PowerMeter 1 1 1, PowerMeterInitCall 1,
                   NewADE7953PowerMeter 2 1 0, PowerMeterInitCall 2]\<rparr>)"
    by (simp add: PowerMeterInit_def hw_pm2_fails_def emit_def empty_registry_def
        ADE7953PowerMeter_def)
  have e: "trace empty_registry = []" "pms empty_registry = []"
    by (simp_all add: empty_registry_def)
  from CreatePeripherals_completes [of hw_no_chip empty_registry]
    CreatePeripherals_completes [of hw_pm2_fails empty_registry]
  show ?thesis
    by (simp add: a b e)
qed


text \<open>
  Claim C8, as the code has it. One handler is added in a run of
  \<open>CreatePeripherals\<close>: the reset sequence, to input 1, so that input 1 has this one
  handler and input 2 has none. The integer bound into the handler is 4. That is the
  GPIO pin of the output with logical index 1 (the outputs are index 1 on pin 4 and
  index 2 on pin 15), not a logical index.
\<close>

theorem CreatePeripherals_reset_handler:
  "map (\<lambda>i. (in_id i, in_handlers i))
     (drop (length (inputs r)) (inputs (CreatePeripherals h r))) =
     [(1, [HandleInputResetSequence 1 4]), (2, [])] \<and>
   filter is_AddHandler (run_events h r) = [AddHandler 1 (HandleInputResetSequence 1 4)] \<and>
   map (\<lambda>out. (out_id out, out_pin out))
     (drop (length (outputs r)) (outputs (CreatePeripherals h r))) = [(1, 4), (2, 15)]"
proof -
  obtain evs where e: "run_events h r =
           [NewOutputPin 1 4 1, NewOutputPin 2 15 1,
            NewInputPin 1 13 1 MGOS_GPIO_PULL_NONE True,
            AddHandler 1 (HandleInputResetSequence 1 4), InputInit 1,
            NewInputPin 2 5 1 MGOS_GPIO_PULL_NONE False, InputInit 2] @
           Ade7953Create # evs @ [NewTempSensor 0]"
    and f: "filter is_AddHandler evs = []"
    using run_events_eq [of h r] by blast
  show ?thesis
    using f by (simp add: e CreatePeripherals_outputs CreatePeripherals_inputs OutputPin_def
        InputPin_def Input_AddHandler_def)
qed

text \<open>
  Claim C8, as stated, fails: after \<open>CreatePeripherals\<close> on the empty registry, the
  one handler attached to an input is bound to the integer 4, the outputs have the
  logical indices 1 and 2, and 4 is not the logical index of an output.
\<close>

theorem reset_handler_arg_is_no_output_index:
  "concat (map in_handlers (inputs (CreatePeripherals hw_all_ok empty_registry))) =
     [HandleInputResetSequence 1 4] \<and>
   map out_id (outputs (CreatePeripherals hw_all_ok empty_registry)) = [1, 2] \<and>
   4 \<notin> set (map out_id (outputs (CreatePeripherals hw_all_ok empty_registry)))"
  by (simp add: CreatePeripherals_outputs CreatePeripherals_inputs OutputPin_def
        InputPin_def Input_AddHandler_def empty_registry_def)

section \<open>CreateComponents\<close>

text \<open>The steps of \<open>CreateComponents\<close>, each as the state it gives.\<close>

lemma pri_acc_attach_Cons:
  "accs g = pri # rest \<Longrightarrow>
   pri_acc_attach cat svc g =
     Some \<lparr>comps = comps g,
           accs = pri\<lparr>acc_category := cat, acc_services := acc_services pri @ [svc]\<rparr> # rest,
           calls = calls g @ [SetCategory (accs_at 0) cat, AddService (accs_at 0) svc]\<rparr>"
  by (simp add: pri_acc_attach_def Accessory_SetCategory_def Accessory_AddService_def)

lemma new_acc_attach_eq:
  "new_acc_attach e wc_cfg i svc g =
     \<lparr>comps = comps g,
      accs = accs g @ [\<lparr>acc_aid = SHELLY_HAP_AID_BASE_WINDOW_COVERING e + i,
                         acc_category = kHAPAccessoryCategory_BridgedAccessory,
                         acc_name = wc_name wc_cfg,
                         acc_services = [mgos_hap_accessory_information_service, svc]\<rparr>],
      calls = calls g @ [AddHAPService local_acc mgos_hap_accessory_information_service,
                         AddService local_acc svc]\<rparr>"
  by (simp add: new_acc_attach_def new_Accessory_def Accessory_AddHAPService_def
      Accessory_AddService_def)

lemma call_CreateHAPInput_eq:
  "call_CreateHAPInput e i c g =
     \<lparr>comps = fst (CreateHAPInput e i c (comps g, accs g)),
      accs = snd (CreateHAPInput e i c (comps g, accs g)),
      calls = calls g @ [CallCreateHAPInput i c]\<rparr>"
  by (simp add: call_CreateHAPInput_def split_beta)

lemma call_CreateHAPSwitch_eq:
  "call_CreateHAPSwitch e i sc ic p g =
     \<lparr>comps = fst (CreateHAPSwitch e i sc ic p (comps g, accs g)),
      accs = snd (CreateHAPSwitch e i sc ic p (comps g, accs g)),
      calls = calls g @ [CallCreateHAPSwitch i sc ic p]\<rparr>"
  by (simp add: call_CreateHAPSwitch_def split_beta)

lemma service_of_primary: "service_of (c\<lparr>primary := b\<rparr>) = service_of c"
  by (simp add: service_of_def)

text \<open>The two early returns, lines 101 to 103 and 142 to 144.\<close>

lemma CreateComponents_wc_fail:
  "shelly_mode cfg = 1 \<Longrightarrow>
   construct_wc e cfg = None \<or> (\<exists>c. construct_wc e cfg = Some c \<and> \<not> ok (Init e c)) \<Longrightarrow>
   CreateComponents e cfg g = Some g"
  by (auto simp: CreateComponents_def)

lemma CreateComponents_gdo_fail:
  "shelly_mode cfg = 2 \<Longrightarrow>
   construct_gdo e = None \<or> (\<exists>c. construct_gdo e = Some c \<and> \<not> ok (Init e c)) \<Longrightarrow>
   CreateComponents e cfg g = Some g"
  by (auto simp: CreateComponents_def)

text \<open>The two branches past their early return.\<close>

lemma CreateComponents_wc:
  "shelly_mode cfg = 1 \<Longrightarrow> construct_wc e cfg = Some c \<Longrightarrow> ok (Init e c) \<Longrightarrow>
   CreateComponents e cfg g =
     map_option (emplace_back_comp (c\<lparr>primary := True\<rparr>))
       (wc_switch e (wc1 cfg) (c\<lparr>primary := True\<rparr>) (wc_in_mode (wc1 cfg)) g)"
  by (simp add: CreateComponents_def Let_def set_primary_def split: option.splits)


text \<open>
  Claim C1. Roller-shutter mode, the window covering constructed (\<open>c\<close>) and
  initialised. In the sub-modes separate-momentary and separate-toggle the Component
  goes to the accessory at index 0, whose category becomes window coverings, and
  \<open>accs\<close> has no new element. In the sub-modes single and detached exactly one
  accessory is created and pushed: bridged, named from the configuration, with the
  accessory information service first and the Component second. Then
  \<open>CreateHAPInput\<close> is called for input 1 and then input 2 if the sub-mode is
  detached, and otherwise once: for input 1 if \<open>swap_inputs\<close> is set, else for input
  2. What that function does with \<open>comps\<close> and \<open>accs\<close> is its own; the Component
  with \<open>primary\<close> set is appended to \<open>comps\<close> after it.
\<close>

theorem CreateComponents_roller_shutter_accessories:
  assumes "shelly_mode cfg = 1" and "construct_wc e cfg = Some c" and "ok (Init e c)"
  shows
   "(wc_in_mode (wc1 cfg) = kSeparateMomentary \<or> wc_in_mode (wc1 cfg) = kSeparateToggle \<longrightarrow>
       (\<forall>pri rest. accs g = pri # rest \<longrightarrow>
          CreateComponents e cfg g =
            Some \<lparr>comps = comps g @ [c\<lparr>primary := True\<rparr>],
                  accs = pri\<lparr>acc_category := kHAPAccessoryCategory_WindowCoverings,
                             acc_services := acc_services pri @ [service_of c]\<rparr> # rest,
                  calls = calls g @
                    [SetCategory (accs_at 0) kHAPAccessoryCategory_WindowCoverings,
                     AddService (accs_at 0) (service_of c)]\<rparr>)) \<and>
    (wc_in_mode (wc1 cfg) = kSingle \<or> wc_in_mode (wc1 cfg) = kDetached \<longrightarrow>
       (\<forall>acc. acc = \<lparr>acc_aid = SHELLY_HAP_AID_BASE_WINDOW_COVERING e + 1,
                     acc_category = kHAPAccessoryCategory_BridgedAccessory,
                     acc_name = wc_name (wc1 cfg),
                     acc_services = [mgos_hap_accessory_information_service, service_of c]\<rparr> \<longrightarrow>
          (wc_in_mode (wc1 cfg) = kDetached \<longrightarrow>
             CreateComponents e cfg g =
               Some \<lparr>comps = fst (CreateHAPInput e 2 cfg_in2
                                    (CreateHAPInput e 1 cfg_in1 (comps g, accs g @ [acc])))
                             @ [c\<lparr>primary := True\<rparr>],
                     accs = snd (CreateHAPInput e 2 cfg_in2
                                   (CreateHAPInput e 1 cfg_in1 (comps g, accs g @ [acc]))),
                     calls = calls g @
                       [AddHAPService local_acc mgos_hap_accessory_information_service,
                        AddService local_acc (service_of c),
                        CallCreateHAPInput 1 cfg_in1, CallCreateHAPInput 2 cfg_in2]\<rparr>) \<and>
          (wc_in_mode (wc1 cfg) = kSingle \<and> wc_swap_inputs (wc1 cfg) \<longrightarrow>
             CreateComponents e cfg g =
               Some \<lparr>comps = fst (CreateHAPInput e 1 cfg_in1 (comps g, accs g @ [acc]))
                             @ [c\<lparr>primary := True\<rparr>],
                     accs = snd (CreateHAPInput e 1 cfg_in1 (comps g, accs g @ [acc])),
                     calls = calls g @
                       [AddHAPService local_acc mgos_hap_accessory_information_service,
                        AddService local_acc (service_of c),
                        CallCreateHAPInput 1 cfg_in1]\<rparr>) \<and>
          (wc_in_mode (wc1 cfg) = kSingle \<and> \<not> wc_swap_inputs (wc1 cfg) \<longrightarrow>
             CreateComponents e cfg g =
               Some \<lparr>comps = fst (CreateHAPInput e 2 cfg_in2 (comps g, accs g @ [acc]))
                             @ [c\<lparr>primary := True\<rparr>],
                     accs = snd (CreateHAPInput e 2 cfg_in2 (comps g, accs g @ [acc])),
                     calls = calls g @
                       [AddHAPService local_acc mgos_hap_accessory_information_service,
                        AddService local_acc (service_of c),
                        CallCreateHAPInput 2 cfg_in2]\<rparr>)))"
  by (cases "wc_in_mode (wc1 cfg)")
     (simp_all add: CreateComponents_wc [OF assms] service_of_primary pri_acc_attach_Cons
        new_acc_attach_eq call_CreateHAPInput_eq emplace_back_comp_def)

text \<open>
  The five cases with a \<open>CreateHAPInput\<close> that adds one accessory per call, on the
  graph that holds the bridge-primary accessory (id 1) alone: the ids of the
  accessories afterwards. 1025 is the accessory of the window covering, 1537 and 1538
  are those of input 1 and input 2.
\<close>

theorem CreateComponents_roller_shutter_accessories_witness:
  "map acc_aid (accs (the (CreateComponents collab_ok (cfg_roller kSeparateMomentary False) graph0)))
     = [1] \<and>
   map acc_aid (accs (the (CreateComponents collab_ok (cfg_roller kSeparateToggle True) graph0)))
     = [1] \<and>
   map acc_aid (accs (the (CreateComponents collab_ok (cfg_roller kSingle False) graph0)))
     = [1, 1025, 1538] \<and>
   map acc_aid (accs (the (CreateComponents collab_ok (cfg_roller kSingle True) graph0)))
     = [1, 1025, 1537] \<and>
   map acc_aid (accs (the (CreateComponents collab_ok (cfg_roller kDetached False) graph0)))
     = [1, 1025, 1537, 1538]"
proof -
  let ?c = "\<lparr>comp_type = kWindowCovering, comp_id = 1, primary = False\<rparr>"
  have m: "shelly_mode (cfg_roller im swap) = 1" for im swap
    by (simp add: cfg_roller_def)
  have c: "construct_wc collab_ok (cfg_roller im swap) = Some ?c" for im swap
    by (simp add: construct_wc_def collab_ok_def)
  have i: "ok (Init collab_ok ?c)"
    by (simp add: collab_ok_def)
  have a: "accs graph0 = bridge_acc # []"
    by (simp add: graph0_def)
  note t = CreateComponents_roller_shutter_accessories [OF m c i, of _ _ graph0]
  show ?thesis
    using t [of kSeparateMomentary False] t [of kSeparateToggle True] t [of kSingle False]
      t [of kSingle True] t [of kDetached False]
    by (simp add: a cfg_roller_def) (simp add: collab_ok_def example_CreateHAPInput_def
        graph0_def bridge_acc_def)
qed

text \<open>
  Claim C6. A failing branch changes nothing. In roller-shutter mode, when the
  constructor of the window covering gives null or its \<open>Init\<close> fails,
  \<open>CreateComponents\<close> returns with \<open>comps\<close> and \<open>accs\<close> as they were and
  without a call on an accessory: no Component appended, no category set, no service
  attached, no accessory added. The same holds in garage-door mode for the garage door
  opener.
\<close>

theorem CreateComponents_failure_atomic:
  "(shelly_mode cfg = 1 \<and>
      (construct_wc e cfg = None \<or> (\<exists>c. construct_wc e cfg = Some c \<and> \<not> ok (Init e c))) \<longrightarrow>
      CreateComponents e cfg g = Some g) \<and>
   (shelly_mode cfg = 2 \<and>
      (construct_gdo e = None \<or> (\<exists>c. construct_gdo e = Some c \<and> \<not> ok (Init e c))) \<longrightarrow>
      CreateComponents e cfg g = Some g)"
  using CreateComponents_wc_fail [of cfg e g] CreateComponents_gdo_fail [of cfg e g]
  by blast

text \<open>Both modes, with \<open>Init\<close> failing and with the constructor giving null.\<close>

theorem CreateComponents_failure_atomic_witness:
  "CreateComponents collab_init_fails (cfg_roller kDetached False) graph0 = Some graph0 \<and>
   CreateComponents collab_null (cfg_roller kSeparateToggle False) graph0 = Some graph0 \<and>
   CreateComponents collab_init_fails cfg_garage graph0 = Some graph0 \<and>
   CreateComponents collab_null cfg_garage graph0 = Some graph0"
  using CreateComponents_failure_atomic [of "cfg_roller kDetached False" collab_init_fails graph0]
    CreateComponents_failure_atomic [of "cfg_roller kSeparateToggle False" collab_null graph0]
    CreateComponents_failure_atomic [of cfg_garage collab_init_fails graph0]
    CreateComponents_failure_atomic [of cfg_garage collab_null graph0]
  by (simp add: cfg_roller_def cfg_garage_def collab_init_fails_def collab_null_def
      collab_ok_def construct_wc_def construct_gdo_def)

text \<open>
  Claim C2. Normal mode, with a \<open>CreateHAPSwitch\<close> that appends one Component per
  call (\<open>sw i p\<close> for index \<open>i\<close> and \<open>to_pri_acc = p\<close>). If the legacy flag is set
  and neither \<open>sw1.in_mode\<close> nor \<open>sw2.in_mode\<close> is 3, \<open>CreateHAPSwitch\<close> is called
  for switch 2 and then for switch 1, both with \<open>to_pri_acc = true\<close>, and \<open>comps\<close>
  is reversed afterwards: starting from no Component it ends as switch 1, switch 2.
  Otherwise it is called for switch 1 and then switch 2, both with
  \<open>to_pri_acc = false\<close>, and \<open>comps\<close> ends as switch 1, switch 2 as well. The order
  of the two Components is the same on both paths; \<open>to_pri_acc\<close> is what differs.
  On both paths \<open>accs\<close> is what the two calls of \<open>CreateHAPSwitch\<close> leave: the
  function itself does not touch it.
\<close>

theorem CreateComponents_legacy_order:
  assumes "shelly_mode cfg \<noteq> 1" and "shelly_mode cfg \<noteq> 2"
    and "\<forall>i sc ic p cs as. fst (CreateHAPSwitch e i sc ic p (cs, as)) = cs @ [sw i p]"
  shows
   "(shelly_legacy_hap_layout cfg \<and> sw1_in_mode cfg \<noteq> 3 \<and> sw2_in_mode cfg \<noteq> 3 \<longrightarrow>
      (\<exists>g'. CreateComponents e cfg g = Some g' \<and>
            calls g' = calls g @ [CallCreateHAPSwitch 2 cfg_sw2 cfg_in2 True,
                                  CallCreateHAPSwitch 1 cfg_sw1 cfg_in1 True] \<and>
            comps g' = rev (comps g @ [sw 2 True, sw 1 True]) \<and>
            accs g' = snd (CreateHAPSwitch e 1 cfg_sw1 cfg_in1 True
                             (CreateHAPSwitch e 2 cfg_sw2 cfg_in2 True (comps g, accs g))) \<and>
            (comps g = [] \<longrightarrow> comps g' = [sw 1 True, sw 2 True]))) \<and>
    (\<not> (shelly_legacy_hap_layout cfg \<and> sw1_in_mode cfg \<noteq> 3 \<and> sw2_in_mode cfg \<noteq> 3) \<longrightarrow>
      (\<exists>g'. CreateComponents e cfg g = Some g' \<and>
            calls g' = calls g @ [CallCreateHAPSwitch 1 cfg_sw1 cfg_in1 False,
                                  CallCreateHAPSwitch 2 cfg_sw2 cfg_in2 False] \<and>
            comps g' = comps g @ [sw 1 False, sw 2 False] \<and>
            accs g' = snd (CreateHAPSwitch e 2 cfg_sw2 cfg_in2 False
                             (CreateHAPSwitch e 1 cfg_sw1 cfg_in1 False (comps g, accs g))) \<and>
            (comps g = [] \<longrightarrow> comps g' = [sw 1 False, sw 2 False])))"
proof -
  have h: "fst (CreateHAPSwitch e i sc ic p x) = fst x @ [sw i p]" for i sc ic p x
    using assms(3) by (cases x) simp
  let ?legacy = "CreateHAPSwitch e 1 cfg_sw1 cfg_in1 True
                   (CreateHAPSwitch e 2 cfg_sw2 cfg_in2 True (comps g, accs g))"
  let ?forward = "CreateHAPSwitch e 2 cfg_sw2 cfg_in2 False
                    (CreateHAPSwitch e 1 cfg_sw1 cfg_in1 False (comps g, accs g))"
  have l: "fst ?legacy = comps g @ [sw 2 True, sw 1 True]"
    and f: "fst ?forward = comps g @ [sw 1 False, sw 2 False]"
    by (simp_all add: h)
  have r: "CreateComponents e cfg g =
      (if shelly_legacy_hap_layout cfg \<and> sw1_in_mode cfg \<noteq> 3 \<and> sw2_in_mode cfg \<noteq> 3
       then Some \<lparr>comps = rev (fst ?legacy), accs = snd ?legacy,
                   calls = calls g @ [CallCreateHAPSwitch 2 cfg_sw2 cfg_in2 True,
                                      CallCreateHAPSwitch 1 cfg_sw1 cfg_in1 True]\<rparr>
       else Some \<lparr>comps = fst ?forward, accs = snd ?forward,
                   calls = calls g @ [CallCreateHAPSwitch 1 cfg_sw1 cfg_in1 False,
                                      CallCreateHAPSwitch 2 cfg_sw2 cfg_in2 False]\<rparr>)"
    using assms(1,2)
    by (simp add: CreateComponents_def Let_def call_CreateHAPSwitch_eq)
  show ?thesis
    unfolding r l f by auto
qed

text \<open>
  The legacy path, the path without the flag, and the path with the flag and a detached
  input on switch 1: the Components are switch 1, switch 2 each time; both are bound to
  the primary accessory on the legacy path alone, where switch 2 is created first.
\<close>

theorem CreateComponents_legacy_order_witness:
  "map comp_id (comps (the (CreateComponents collab_ok (cfg_normal True 0 1) graph0))) = [1, 2] \<and>
   map primary (comps (the (CreateComponents collab_ok (cfg_normal True 0 1) graph0)))
     = [True, True] \<and>
   calls (the (CreateComponents collab_ok (cfg_normal True 0 1) graph0)) =
     [CallCreateHAPSwitch 2 cfg_sw2 cfg_in2 True, CallCreateHAPSwitch 1 cfg_sw1 cfg_in1 True] \<and>
   map comp_id (comps (the (CreateComponents collab_ok (cfg_normal False 0 1) graph0))) = [1, 2] \<and>
   map primary (comps (the (CreateComponents collab_ok (cfg_normal False 0 1) graph0)))
     = [False, False] \<and>
   map comp_id (comps (the (CreateComponents collab_ok (cfg_normal True 3 1) graph0))) = [1, 2] \<and>
   map primary (comps (the (CreateComponents collab_ok (cfg_normal True 3 1) graph0)))
     = [False, False]"
proof -
  have m: "shelly_mode (cfg_normal l a b) \<noteq> 1" "shelly_mode (cfg_normal l a b) \<noteq> 2" for l a b
    by (simp_all add: cfg_normal_def)
  have h: "\<forall>i sc ic p cs as.
      fst (CreateHAPSwitch collab_ok i sc ic p (cs, as)) = cs @ [example_switch i p]"
    by (simp add: collab_ok_def example_CreateHAPSwitch_def)
  note t = CreateComponents_legacy_order [OF m h, of _ _ _ graph0]
  show ?thesis
    using t [of True 0 1] t [of False 0 1] t [of True 3 1]
    by (auto simp: cfg_normal_def graph0_def example_switch_def)
qed











end
